theory Spec2Isabelle
  imports Complex_Main "HOL-Library.AList"
begin

section \<open>JavaScript values and the runtime helpers the component calls\<close>

text \<open>
  The component \<open>ServerDetailsBlock\<close> (resources/scripts/components/server/console/
  ServerDetailsBlock.tsx) keeps one piece of state, the latest stats snapshot, and
  reads the lifecycle status, the socket, the limits and the allocations from the
  server store. The stats handler declares the decoded payload as \<open>any\<close>, so whatever
  \<open>JSON.parse\<close> returns is read field by field and stored: the snapshot is modelled
  with fields that hold arbitrary JavaScript values, not only numbers.

  Numbers are idealised as reals: NaN and the infinities are not values of \<open>JNum\<close>
  (\<open>JSON.parse\<close> yields neither from a JSON text of ordinary size), and the rounding of
  IEEE doubles is not modelled.
\<close>

datatype jsval =
    JUndefined
  | JNull
  | JBool bool
  | JNum real
  | JStr string
  | JArr "jsval list"
  | JObj "(string \<times> jsval) list"

datatype error = TypeError

text \<open>Truthiness (ToBoolean), as used by \<open>||\<close> and the conditional operator.\<close>

fun truthy :: "jsval \<Rightarrow> bool" where
  "truthy JUndefined = False"
| "truthy JNull = False"
| "truthy (JBool b) = b"
| "truthy (JNum r) = (r \<noteq> 0)"
| "truthy (JStr s) = (s \<noteq> [])"
| "truthy (JArr xs) = True"
| "truthy (JObj kvs) = True"

text \<open>
  Reading a property \<open>v.k\<close>. On \<open>undefined\<close> and \<open>null\<close> the read throws a TypeError; on
  an object it is the own property or \<open>undefined\<close>; on a number, boolean, string or
  array it is \<open>undefined\<close> for every name the built-in prototypes do not define, which
  covers the four names the handler reads.
\<close>

definition own :: "(string \<times> jsval) list \<Rightarrow> string \<Rightarrow> jsval" where
  "own kvs k = (case map_of kvs k of None \<Rightarrow> JUndefined | Some x \<Rightarrow> x)"

fun getProp :: "jsval \<Rightarrow> string \<Rightarrow> error + jsval" where
  "getProp JUndefined k = Inl TypeError"
| "getProp JNull k = Inl TypeError"
| "getProp (JObj kvs) k = Inr (own kvs k)"
| "getProp v k = Inr JUndefined"

text \<open>
  The functions the file imports but does not define, and the two operations of the
  runtime that are not modelled here, are parameters of the model:
  \<^item> \<open>JSON_parse\<close>: \<open>JSON.parse\<close>, \<open>None\<close> when it throws a SyntaxError;
  \<^item> \<open>ToNumber_object\<close>: the abstract operation ToNumber on strings, arrays and
    objects, the only values on which the model below does not compute it
    (\<open>None\<close> is NaN; on an object the conversion can throw);
  \<^item> \<open>capitalize\<close> from \<open>@/lib/strings\<close>;
  \<^item> \<open>ip_formatter\<close> (\<open>ip\<close>), \<open>bytesToString\<close> and \<open>mbToBytes\<close> from \<open>@/lib/formatters\<close>.
\<close>

record helpers =
  JSON_parse :: "string \<Rightarrow> jsval option"
  ToNumber_object :: "jsval \<Rightarrow> error + real option"
  capitalize :: "string \<Rightarrow> string"
  ip_formatter :: "string \<Rightarrow> string"
  bytesToString :: "jsval \<Rightarrow> string"
  mbToBytes :: "int \<Rightarrow> real"

subsection \<open>Numbers to text\<close>

definition digit :: "nat \<Rightarrow> char" where
  "digit n = ''0123456789'' ! (n mod 10)"

function natToString :: "nat \<Rightarrow> string" where
  "natToString n =
     (if n < 10 then [digit n] else natToString (n div 10) @ [digit (n mod 10)])"
  by pat_completeness auto
termination
  by (relation "measure id") auto

declare natToString.simps [simp del]

text \<open>
  A template literal \<open>`${n}`\<close> on an integer prints its decimal digits (below
  \<open>10^21\<close> in magnitude). Ports and limits are integers in the panel's data.
\<close>

definition numToString :: "int \<Rightarrow> string" where
  "numToString i = (if i < 0 then ''-'' @ natToString (nat (- i)) else natToString (nat i))"

text \<open>
  The digits that \<open>Number.prototype.toFixed(f)\<close> prints for a number below \<open>10^21\<close> in
  magnitude: the integer \<open>n\<close> nearest to \<open>x * 10^f\<close>, the larger one on a tie, printed
  with \<open>f\<close> digits after the point; a negative \<open>x\<close> is printed as \<open>-\<close> and its absolute
  value.
\<close>

definition fixedText :: "real \<Rightarrow> nat \<Rightarrow> string" where
  "fixedText x f =
     (let n = nat \<lfloor>\<bar>x\<bar> * 10 ^ f + 1 / 2\<rfloor>;
          ds = natToString n;
          m = replicate (Suc f - length ds) (CHR ''0'') @ ds;
          k = length m - f
      in (if x < 0 then ''-'' else []) @ take k m @ (if f = 0 then [] else ''.'' @ drop k m))"

section \<open>The address\<close>

record Allocation =
  ip :: string
  port :: int
  alias_name :: "string option"
  isDefault :: bool

text \<open>\<open>match.alias || ip(match.ip)\<close>: a missing alias and the empty alias are both falsy.\<close>

definition hostText :: "helpers \<Rightarrow> Allocation \<Rightarrow> string" where
  "hostText H m =
     (case alias_name m of
        None \<Rightarrow> ip_formatter H (ip m)
      | Some a \<Rightarrow> if a \<noteq> [] then a else ip_formatter H (ip m))"

definition allocation :: "helpers \<Rightarrow> Allocation list \<Rightarrow> string" where
  "allocation H allocations =
     (case find isDefault allocations of
        None \<Rightarrow> ''n/a''
      | Some m \<Rightarrow> hostText H m @ '':'' @ numToString (port m))"

section \<open>The snapshot and the stats handler\<close>

text \<open>
  \<open>type Stats = Record<'memory' | 'cpu' | 'disk' | 'uptime', number>\<close>, with the values the
  handler can really store.
\<close>

record Stats =
  memory :: jsval
  cpu :: jsval
  disk :: jsval
  uptime :: jsval

text \<open>The initial state of \<open>useState\<close>.\<close>

definition initialStats :: Stats where
  "initialStats = \<lparr>memory = JNum 0, cpu = JNum 0, disk = JNum 0, uptime = JNum 0\<rparr>"

text \<open>\<open>v || 0\<close>\<close>

definition orZero :: "jsval \<Rightarrow> jsval" where
  "orZero v = (if truthy v then v else JNum 0)"

text \<open>
  The listener of \<open>SocketEvent.STATS\<close>. The result is the snapshot held after the
  listener has run: the one it was called with when \<open>JSON.parse\<close> throws and the
  listener returns, the one passed to \<open>setStats\<close> otherwise. \<open>Inl\<close> is an exception that
  leaves the listener (a property read on \<open>null\<close>), before \<open>setStats\<close> is reached.
\<close>

definition statsHandler :: "helpers \<Rightarrow> string \<Rightarrow> Stats \<Rightarrow> error + Stats" where
  "statsHandler H data stats =
     (case JSON_parse H data of
        None \<Rightarrow> Inr stats
      | Some parsed \<Rightarrow>
          (case getProp parsed ''memory_bytes'' of
             Inl e \<Rightarrow> Inl e
           | Inr m \<Rightarrow>
          (case getProp parsed ''cpu_absolute'' of
             Inl e \<Rightarrow> Inl e
           | Inr c \<Rightarrow>
          (case getProp parsed ''disk_bytes'' of
             Inl e \<Rightarrow> Inl e
           | Inr d \<Rightarrow>
          (case getProp parsed ''uptime'' of
             Inl e \<Rightarrow> Inl e
           | Inr u \<Rightarrow>
               Inr \<lparr>memory = m, cpu = c, disk = d, uptime = orZero u\<rparr>)))))"

text \<open>
  The state cell across one event and across a sequence of events: a listener that
  throws has not called \<open>setStats\<close>, so the snapshot stays.
\<close>

definition deliver :: "helpers \<Rightarrow> Stats \<Rightarrow> string \<Rightarrow> Stats" where
  "deliver H stats data = (case statsHandler H data stats of Inl e \<Rightarrow> stats | Inr s \<Rightarrow> s)"

definition deliverAll :: "helpers \<Rightarrow> string list \<Rightarrow> Stats" where
  "deliverAll H events = foldl (deliver H) initialStats events"

section \<open>Limits\<close>

text \<open>\<open>state.server.data.limits\<close>; \<open>None\<close> is a limit that is absent.\<close>

record Limits =
  cpu_limit :: "int option"
  memory_limit :: "int option"
  disk_limit :: "int option"

text \<open>\<open>l ? f(l) : d\<close> on an optional number: zero and absent are falsy.\<close>

definition whenSet :: "int option \<Rightarrow> (int \<Rightarrow> 'a) \<Rightarrow> 'a \<Rightarrow> 'a" where
  "whenSet l f d = (case l of None \<Rightarrow> d | Some n \<Rightarrow> if n \<noteq> 0 then f n else d)"

record TextLimits =
  cpu_text :: "string option"
  memory_text :: "string option"
  disk_text :: "string option"

definition textLimits :: "helpers \<Rightarrow> Limits \<Rightarrow> TextLimits" where
  "textLimits H limits =
     \<lparr>cpu_text = whenSet (cpu_limit limits) (\<lambda>c. Some (numToString c @ ''%'')) None,
      memory_text =
        whenSet (memory_limit limits) (\<lambda>m. Some (bytesToString H (JNum (mbToBytes H m)))) None,
      disk_text =
        whenSet (disk_limit limits) (\<lambda>d. Some (bytesToString H (JNum (mbToBytes H d)))) None\<rparr>"

section \<open>What is rendered\<close>

text \<open>
  The elements the component builds: text, the entity \<open>&infin;\<close>, a \<open>span\<close> with its class,
  a fragment, and the imported component \<open>UptimeDuration\<close> with its \<open>uptime\<close> property.
  \<open>NumberText x\<close> is the text that the runtime's Number::toString gives for \<open>x\<close>, which
  this model does not compute.
\<close>

datatype node =
    Text string
  | NumberText real
  | Infin
  | Span string "node list"
  | Fragment "node list"
  | UptimeDuration real

text \<open>
  \<open>Number.prototype.toFixed(f)\<close> on a finite number. From \<open>10^21\<close> on in magnitude the
  result is the sign and ToString of the magnitude, which is ToString of the number
  itself; below, it is the digits of \<open>fixedText\<close>.
\<close>

definition toFixed :: "real \<Rightarrow> nat \<Rightarrow> node" where
  "toFixed x f = (if 10 ^ 21 \<le> \<bar>x\<bar> then NumberText x else Text (fixedText x f))"

text \<open>
  The method call \<open>v.toFixed(f)\<close>: only a number has the method. Reading it off
  \<open>undefined\<close> or \<open>null\<close> throws, and on any other value the property is not a
  function, so the call throws as well.
\<close>

fun call_toFixed :: "jsval \<Rightarrow> nat \<Rightarrow> error + node" where
  "call_toFixed (JNum r) f = Inr (toFixed r f)"
| "call_toFixed v f = Inl TypeError"

text \<open>\<open>{limit || <>&infin;</>}\<close>: \<open>null\<close> and the empty string are falsy.\<close>

definition limitText :: "string option \<Rightarrow> node" where
  "limitText limit = (case limit of None \<Rightarrow> Infin | Some l \<Rightarrow> if l \<noteq> [] then Text l else Infin)"

definition Limit :: "string option \<Rightarrow> node list \<Rightarrow> node" where
  "Limit limit children =
     Fragment (children @
       [Span ''ml-1 text-gray-300 text-[70%] select-none'' [Text ''/ '', limitText limit]])"

text \<open>
  ToNumber, which \<open>stats.uptime > 0\<close> and \<open>stats.uptime / 1000\<close> apply to the stored
  value; \<open>None\<close> is NaN.
\<close>

fun ToNumber :: "helpers \<Rightarrow> jsval \<Rightarrow> error + real option" where
  "ToNumber H JUndefined = Inr None"
| "ToNumber H JNull = Inr (Some 0)"
| "ToNumber H (JBool b) = Inr (Some (if b then 1 else 0))"
| "ToNumber H (JNum r) = Inr (Some r)"
| "ToNumber H v = ToNumber_object H v"

text \<open>\<open>stats.uptime > 0 ? <UptimeDuration uptime={stats.uptime / 1000} /> : 'Offline'\<close>\<close>

definition uptimeOrOffline :: "helpers \<Rightarrow> Stats \<Rightarrow> error + node" where
  "uptimeOrOffline H stats =
     (case ToNumber H (uptime stats) of
        Inl e \<Rightarrow> Inl e
      | Inr None \<Rightarrow> Inr (Text ''Offline'')
      | Inr (Some u) \<Rightarrow> if u > 0 then Inr (UptimeDuration (u / 1000)) else Inr (Text ''Offline''))"

text \<open>The children of the Uptime block; \<open>status\<close> is a string or \<open>null\<close>.\<close>

definition uptimeChildren :: "helpers \<Rightarrow> string option \<Rightarrow> Stats \<Rightarrow> error + node" where
  "uptimeChildren H status stats =
     (case status of
        None \<Rightarrow> uptimeOrOffline H stats
      | Some s \<Rightarrow>
          if s = ''starting'' \<or> s = ''stopping'' then Inr (Text (capitalize H s))
          else uptimeOrOffline H stats)"

definition offlineSpan :: node where
  "offlineSpan = Span ''text-gray-400'' [Text ''Offline'']"

definition cpuChildren :: "helpers \<Rightarrow> string option \<Rightarrow> Limits \<Rightarrow> Stats \<Rightarrow> error + node" where
  "cpuChildren H status limits stats =
     (if status = Some ''offline'' then Inr offlineSpan
      else case call_toFixed (cpu stats) 2 of
             Inl e \<Rightarrow> Inl e
           | Inr n \<Rightarrow> Inr (Limit (cpu_text (textLimits H limits)) [n, Text ''%'']))"

definition memoryChildren :: "helpers \<Rightarrow> string option \<Rightarrow> Limits \<Rightarrow> Stats \<Rightarrow> node" where
  "memoryChildren H status limits stats =
     (if status = Some ''offline'' then offlineSpan
      else Limit (memory_text (textLimits H limits)) [Text (bytesToString H (memory stats))])"

definition diskChildren :: "helpers \<Rightarrow> Stats \<Rightarrow> node" where
  "diskChildren H stats = Text (bytesToString H (disk stats))"

definition cpuDescription :: "Limits \<Rightarrow> string" where
  "cpuDescription limits =
     whenSet (cpu_limit limits)
       (\<lambda>c. ''This server is allowed to use up to '' @ numToString c
             @ ''% of the host's available CPU resources.'')
       ''No CPU limit has been configured for this server.''"

definition memoryDescription :: "helpers \<Rightarrow> Limits \<Rightarrow> string" where
  "memoryDescription H limits =
     whenSet (memory_limit limits)
       (\<lambda>m. ''This server is allowed to use up to '' @ bytesToString H (JNum (mbToBytes H m))
             @ '' of memory.'')
       ''No memory limit has been configured for this server.''"

definition diskDescription :: "helpers \<Rightarrow> Limits \<Rightarrow> string" where
  "diskDescription H limits =
     whenSet (disk_limit limits)
       (\<lambda>d. ''This server is allowed to use up to '' @ bytesToString H (JNum (mbToBytes H d))
             @ '' of disk space.'')
       ''No disk space limit has been configured for this server.''"

section \<open>The store, the view and the effect\<close>

text \<open>
  What the component selects from the server store: \<open>state.status.value\<close>,
  \<open>state.socket.connected\<close>, \<open>state.socket.instance\<close> (\<open>null\<close> or a socket object, which
  the dependency array compares by identity: a number stands for the object),
  \<open>state.server.data.limits\<close> and \<open>state.server.data.allocations\<close>.
\<close>

record ServerStore =
  status_value :: "string option"
  socket_connected :: bool
  socket_instance :: "nat option"
  server_limits :: Limits
  server_allocations :: "Allocation list"

record DisplayModel =
  uptime_text :: node
  address_text :: string
  cpu_description :: string
  cpu_text_shown :: node
  memory_description :: string
  memory_text_shown :: node
  disk_description :: string
  disk_text_shown :: node

text \<open>
  One render: the five stat blocks in the order of the JSX (the sixth, the imported
  \<open>ConsoleShareContainer\<close>, takes nothing from this component). \<open>Inl\<close> is an exception
  thrown while the elements are built.
\<close>

definition render :: "helpers \<Rightarrow> ServerStore \<Rightarrow> Stats \<Rightarrow> error + DisplayModel" where
  "render H store stats =
     (case uptimeChildren H (status_value store) stats of
        Inl e \<Rightarrow> Inl e
      | Inr up \<Rightarrow>
     (case cpuChildren H (status_value store) (server_limits store) stats of
        Inl e \<Rightarrow> Inl e
      | Inr c \<Rightarrow>
          Inr \<lparr>uptime_text = up,
               address_text = allocation H (server_allocations store),
               cpu_description = cpuDescription (server_limits store),
               cpu_text_shown = c,
               memory_description = memoryDescription H (server_limits store),
               memory_text_shown =
                 memoryChildren H (status_value store) (server_limits store) stats,
               disk_description = diskDescription H (server_limits store),
               disk_text_shown = diskChildren H stats\<rparr>))"

text \<open>
  \<open>instance.send(SocketRequest.SEND_STATS)\<close>: a message is the socket it is sent on,
  the request and the payload, which this call leaves out.
\<close>

datatype SocketRequest = SEND_STATS

record Message =
  sent_on :: nat
  request :: SocketRequest
  payload :: "jsval option"

text \<open>The body of the effect.\<close>

definition requestStats :: "ServerStore \<Rightarrow> Message list" where
  "requestStats store =
     (case socket_instance store of
        None \<Rightarrow> []
      | Some i \<Rightarrow>
          if \<not> socket_connected store then []
          else [\<lparr>sent_on = i, request = SEND_STATS, payload = None\<rparr>])"

definition deps :: "ServerStore \<Rightarrow> nat option \<times> bool" where
  "deps store = (socket_instance store, socket_connected store)"

text \<open>
  \<open>useEffect(..., [instance, connected])\<close> over the successive renders of a mounted
  component, each with the store it saw: the effect runs after the first render and
  after every render whose dependencies differ from those of the render before. The
  result lists, render by render, the messages sent.
\<close>

fun useEffect :: "(nat option \<times> bool) option \<Rightarrow> ServerStore list \<Rightarrow> Message list list" where
  "useEffect prev [] = []"
| "useEffect prev (store # stores) =
     (if prev = Some (deps store) then [] else requestStats store)
       # useEffect (Some (deps store)) stores"

text \<open>
  The specification's words for the same, to be compared with \<open>useEffect\<close>: the
  transport is connected when the flag is set and its instance is established, and
  it enters that state at a render when it is connected there and was not the
  connected transport at the render before.
\<close>

definition spec_transportConnected :: "ServerStore \<Rightarrow> bool" where
  "spec_transportConnected store = (socket_connected store \<and> socket_instance store \<noteq> None)"

definition spec_entersConnected :: "ServerStore option \<Rightarrow> ServerStore \<Rightarrow> bool" where
  "spec_entersConnected before store =
     (spec_transportConnected store \<and>
      (case before of
         None \<Rightarrow> True
       | Some b \<Rightarrow> \<not> (spec_transportConnected b \<and> socket_instance b = socket_instance store)))"

definition renderBefore :: "ServerStore list \<Rightarrow> nat \<Rightarrow> ServerStore option" where
  "renderBefore stores i = (if i = 0 then None else Some (stores ! (i - 1)))"

section \<open>A runtime to evaluate examples in\<close>

subsection \<open>JSON.parse\<close>

text \<open>
  A model of the runtime's \<open>JSON.parse\<close> on ASCII texts (strings without \<open>\u\<close> escapes):
  a lexer, then a parser that keeps the open arrays and objects on a stack. \<open>None\<close> is
  the SyntaxError. A key given twice keeps its first place and its last value.
\<close>

datatype token =
    TLBrace | TRBrace | TLBracket | TRBracket | TColon | TComma
  | TString string | TNumber real | TTrue | TFalse | TNull

definition isDigit :: "char \<Rightarrow> bool" where
  "isDigit c = (c \<in> set ''0123456789'')"

definition isSpace :: "char \<Rightarrow> bool" where
  "isSpace c = (c \<in> {CHR '' '', CHR 0x09, CHR 0x0A, CHR 0x0D})"

definition isWordChar :: "char \<Rightarrow> bool" where
  "isWordChar c = (c \<in> set ''0123456789+-.abcdefghijklmnopqrstuvwxyzABCDEFGHIJKLMNOPQRSTUVWXYZ'')"

definition digitsValue :: "string \<Rightarrow> nat" where
  "digitsValue ds = foldl (\<lambda>a c. 10 * a + (of_char c - 48)) 0 ds"

definition scale :: "real \<Rightarrow> bool \<Rightarrow> nat \<Rightarrow> real" where
  "scale x down e = (if down then x / 10 ^ e else x * 10 ^ e)"

text \<open>The exponent part: empty, or \<open>e\<close> or \<open>E\<close>, an optional sign and digits.\<close>

definition parseExponent :: "string \<Rightarrow> (bool \<times> nat) option" where
  "parseExponent w =
     (case w of
        [] \<Rightarrow> Some (False, 0)
      | c # r \<Rightarrow>
          if c = CHR ''e'' \<or> c = CHR ''E'' then
            (let down = (case r of [] \<Rightarrow> False | s # _ \<Rightarrow> s = CHR ''-'');
                 ds = (case r of [] \<Rightarrow> [] | s # t \<Rightarrow> if s = CHR ''-'' \<or> s = CHR ''+'' then t else r)
             in if ds \<noteq> [] \<and> list_all isDigit ds then Some (down, digitsValue ds) else None)
          else None)"

text \<open>The fraction part and what follows it: empty, or a point and at least one digit.\<close>

definition parseFraction :: "string \<Rightarrow> (string \<times> string) option" where
  "parseFraction w =
     (case w of
        [] \<Rightarrow> Some ([], [])
      | c # r \<Rightarrow>
          if c = CHR ''.'' then
            (if takeWhile isDigit r = [] then None
             else Some (takeWhile isDigit r, dropWhile isDigit r))
          else Some ([], w))"

definition parseNumber :: "string \<Rightarrow> real option" where
  "parseNumber w =
     (let neg = (case w of [] \<Rightarrow> False | c # _ \<Rightarrow> c = CHR ''-'');
          u = (if neg then tl w else w);
          ip = takeWhile isDigit u
      in if ip = [] \<or> (length ip > 1 \<and> hd ip = CHR ''0'') then None
         else case parseFraction (dropWhile isDigit u) of
                None \<Rightarrow> None
              | Some (fp, rest) \<Rightarrow>
                  (case parseExponent rest of
                     None \<Rightarrow> None
                   | Some (down, e) \<Rightarrow>
                       Some ((if neg then - 1 else 1)
                             * scale (real (digitsValue (ip @ fp)) / 10 ^ length fp) down e)))"

definition wordToken :: "string \<Rightarrow> token option" where
  "wordToken w =
     (if w = ''true'' then Some TTrue
      else if w = ''false'' then Some TFalse
      else if w = ''null'' then Some TNull
      else map_option TNumber (parseNumber w))"

definition unescape :: "char \<Rightarrow> char option" where
  "unescape c =
     map_of [(CHR 0x22, CHR 0x22), (CHR 0x5C, CHR 0x5C), (CHR ''/'', CHR ''/''),
             (CHR ''b'', CHR 0x08), (CHR ''f'', CHR 0x0C), (CHR ''n'', CHR 0x0A),
             (CHR ''r'', CHR 0x0D), (CHR ''t'', CHR 0x09)] c"

definition punctuation :: "char \<Rightarrow> token option" where
  "punctuation c =
     map_of [(CHR ''{'', TLBrace), (CHR ''}'', TRBrace), (CHR ''['', TLBracket),
             (CHR '']'', TRBracket), (CHR '':'', TColon), (CHR '','', TComma)] c"

datatype lexmode = Plain | InWord string | InString string | Escape string

fun lexer :: "lexmode \<Rightarrow> string \<Rightarrow> token list option" where
  "lexer Plain [] = Some []"
| "lexer Plain (c # cs) =
     (if isSpace c then lexer Plain cs
      else if c = CHR 0x22 then lexer (InString []) cs
      else if isWordChar c then lexer (InWord [c]) cs
      else case punctuation c of
             None \<Rightarrow> None
           | Some t \<Rightarrow> map_option (Cons t) (lexer Plain cs))"
| "lexer (InWord acc) [] = map_option (\<lambda>t. [t]) (wordToken (rev acc))"
| "lexer (InWord acc) (c # cs) =
     (if isWordChar c then lexer (InWord (c # acc)) cs
      else case wordToken (rev acc) of
             None \<Rightarrow> None
           | Some t \<Rightarrow>
               map_option (Cons t)
                 (if isSpace c then lexer Plain cs
                  else if c = CHR 0x22 then lexer (InString []) cs
                  else case punctuation c of
                         None \<Rightarrow> None
                       | Some p \<Rightarrow> map_option (Cons p) (lexer Plain cs)))"
| "lexer (InString acc) [] = None"
| "lexer (InString acc) (c # cs) =
     (if c = CHR 0x22 then map_option (Cons (TString (rev acc))) (lexer Plain cs)
      else if c = CHR 0x5C then lexer (Escape acc) cs
      else if (of_char c :: nat) < 32 then None
      else lexer (InString (c # acc)) cs)"
| "lexer (Escape acc) [] = None"
| "lexer (Escape acc) (c # cs) =
     (case unescape c of None \<Rightarrow> None | Some d \<Rightarrow> lexer (InString (d # acc)) cs)"

datatype frame = ArrFrame "jsval list" | ObjFrame "(string \<times> jsval) list" "string option"

datatype pstate =
    PValue "frame list"
  | PFirstElem "frame list"
  | PFirstKey "frame list"
  | PKey "frame list"
  | PColon "frame list"
  | PAfter "frame list"
  | PDone jsval

text \<open>A value is complete: it is the result, or it goes into the innermost open frame.\<close>

fun complete :: "jsval \<Rightarrow> frame list \<Rightarrow> pstate option" where
  "complete v [] = Some (PDone v)"
| "complete v (ArrFrame xs # fs) = Some (PAfter (ArrFrame (v # xs) # fs))"
| "complete v (ObjFrame kvs (Some k) # fs) = Some (PAfter (ObjFrame (AList.update k v kvs) None # fs))"
| "complete v (ObjFrame kvs None # fs) = None"

fun startValue :: "token \<Rightarrow> frame list \<Rightarrow> pstate option" where
  "startValue (TString s) fs = complete (JStr s) fs"
| "startValue (TNumber r) fs = complete (JNum r) fs"
| "startValue TTrue fs = complete (JBool True) fs"
| "startValue TFalse fs = complete (JBool False) fs"
| "startValue TNull fs = complete JNull fs"
| "startValue TLBracket fs = Some (PFirstElem (ArrFrame [] # fs))"
| "startValue TLBrace fs = Some (PFirstKey (ObjFrame [] None # fs))"
| "startValue t fs = None"

fun closeFrame :: "token \<Rightarrow> frame list \<Rightarrow> pstate option" where
  "closeFrame TRBracket (ArrFrame xs # fs) = complete (JArr (rev xs)) fs"
| "closeFrame TRBrace (ObjFrame kvs None # fs) = complete (JObj kvs) fs"
| "closeFrame t fs = None"

fun setKey :: "token \<Rightarrow> frame list \<Rightarrow> pstate option" where
  "setKey (TString k) (ObjFrame kvs None # fs) = Some (PColon (ObjFrame kvs (Some k) # fs))"
| "setKey t fs = None"

fun afterValue :: "token \<Rightarrow> frame list \<Rightarrow> pstate option" where
  "afterValue TComma (ArrFrame xs # fs) = Some (PValue (ArrFrame xs # fs))"
| "afterValue TComma (ObjFrame kvs None # fs) = Some (PKey (ObjFrame kvs None # fs))"
| "afterValue t fs = closeFrame t fs"

fun pstep :: "pstate \<Rightarrow> token \<Rightarrow> pstate option" where
  "pstep (PValue fs) t = startValue t fs"
| "pstep (PFirstElem fs) t = (if t = TRBracket then closeFrame t fs else startValue t fs)"
| "pstep (PFirstKey fs) t = (if t = TRBrace then closeFrame t fs else setKey t fs)"
| "pstep (PKey fs) t = setKey t fs"
| "pstep (PColon fs) t = (if t = TColon then Some (PValue fs) else None)"
| "pstep (PAfter fs) t = afterValue t fs"
| "pstep (PDone v) t = None"

fun psteps :: "pstate \<Rightarrow> token list \<Rightarrow> pstate option" where
  "psteps st [] = Some st"
| "psteps st (t # ts) = (case pstep st t of None \<Rightarrow> None | Some st' \<Rightarrow> psteps st' ts)"

definition JSON_parse_model :: "string \<Rightarrow> jsval option" where
  "JSON_parse_model text =
     (case lexer Plain text of
        None \<Rightarrow> None
      | Some ts \<Rightarrow> (case psteps (PValue []) ts of Some (PDone v) \<Rightarrow> Some v | _ \<Rightarrow> None))"


subsection \<open>The imported helpers\<close>

definition upperChar :: "char \<Rightarrow> char" where
  "upperChar c =
     (case map_of (zip ''abcdefghijklmnopqrstuvwxyz'' ''ABCDEFGHIJKLMNOPQRSTUVWXYZ'') c of
        None \<Rightarrow> c
      | Some u \<Rightarrow> u)"

text \<open>Modelled from the spec: \<open>capitalize\<close> of \<open>@/lib/strings\<close>, which is not among the
  sources. The specification speaks of ``the capitalized status word'': the first
  letter is put in upper case.\<close>

definition capitalize_model :: "string \<Rightarrow> string" where
  "capitalize_model s = (case s of [] \<Rightarrow> [] | c # cs \<Rightarrow> upperChar c # cs)"

text \<open>Modelled from the spec: \<open>ip\<close> of \<open>@/lib/formatters\<close>, which is not among the sources.
  The specification renders ``the raw IP''.\<close>

definition ip_model :: "string \<Rightarrow> string" where
  "ip_model a = a"

text \<open>Modelled from the spec: \<open>mbToBytes\<close> of \<open>@/lib/formatters\<close>, which is not among the
  sources. The specification leaves the factor open between 1,000,000 and 1,048,576;
  its example shows a limit of 512 as 512.00 MiB, which is the second.\<close>

definition mbToBytes_model :: "int \<Rightarrow> real" where
  "mbToBytes_model mb = real_of_int mb * 1048576"

text \<open>Modelled from the spec: \<open>bytesToString\<close> of \<open>@/lib/formatters\<close>, which is not among
  the sources: binary-prefix units with a fixed precision of two digits, as in the
  specification's example of 1048576 bytes shown as 1.00 MiB. The specification
  says nothing of an argument that is not a number; the model prints \<open>NaN\<close> for it.\<close>

definition bytesToString_model :: "jsval \<Rightarrow> string" where
  "bytesToString_model v =
     (case v of
        JNum b \<Rightarrow>
          if b < 1024 then fixedText b 2 @ '' Bytes''
          else if b < 1024 ^ 2 then fixedText (b / 1024) 2 @ '' KiB''
          else if b < 1024 ^ 3 then fixedText (b / 1024 ^ 2) 2 @ '' MiB''
          else if b < 1024 ^ 4 then fixedText (b / 1024 ^ 3) 2 @ '' GiB''
          else fixedText (b / 1024 ^ 4) 2 @ '' TiB''
      | _ \<Rightarrow> ''NaN'')"

text \<open>
  ToNumber on strings, arrays and objects is not computed in this runtime: it
  answers NaN. The examples evaluated in it hold numbers wherever ToNumber is applied.
\<close>

definition ToNumber_object_model :: "jsval \<Rightarrow> error + real option" where
  "ToNumber_object_model v = Inr None"

definition exampleRuntime :: helpers where
  "exampleRuntime =
     \<lparr>JSON_parse = JSON_parse_model,
      ToNumber_object = ToNumber_object_model,
      capitalize = capitalize_model,
      ip_formatter = ip_model,
      bytesToString = bytesToString_model,
      mbToBytes = mbToBytes_model\<rparr>"

text \<open>Stores and snapshots to evaluate examples on.\<close>

definition exampleLimits :: Limits where
  "exampleLimits = \<lparr>cpu_limit = Some 50, memory_limit = Some 512, disk_limit = Some 1024\<rparr>"

definition exampleAllocations :: "Allocation list" where
  "exampleAllocations =
     [\<lparr>ip = ''10.0.0.1'', port = 25565, alias_name = None, isDefault = False\<rparr>,
      \<lparr>ip = ''10.0.0.2'', port = 25566, alias_name = Some ''play'', isDefault = True\<rparr>]"

definition exampleStore :: "string \<Rightarrow> ServerStore" where
  "exampleStore status =
     \<lparr>status_value = Some status, socket_connected = True, socket_instance = Some 1,
      server_limits = exampleLimits, server_allocations = exampleAllocations\<rparr>"

definition socketStore :: "bool \<Rightarrow> nat option \<Rightarrow> ServerStore" where
  "socketStore c i =
     \<lparr>status_value = Some ''running'', socket_connected = c, socket_instance = i,
      server_limits = exampleLimits, server_allocations = exampleAllocations\<rparr>"

text \<open>
  Six renders: no socket yet, the socket created, connected, rendered again for
  another reason, disconnected, connected again.
\<close>

definition exampleTrace :: "ServerStore list" where
  "exampleTrace =
     [socketStore False None, socketStore False (Some 1), socketStore True (Some 1),
      socketStore True (Some 1), socketStore False (Some 1), socketStore True (Some 1)]"

definition unlimited :: Limits where
  "unlimited = \<lparr>cpu_limit = Some 0, memory_limit = None, disk_limit = Some 0\<rparr>"

definition unlimitedStore :: ServerStore where
  "unlimitedStore =
     \<lparr>status_value = Some ''running'', socket_connected = True, socket_instance = Some 1,
      server_limits = unlimited, server_allocations = exampleAllocations\<rparr>"

definition exampleStats :: Stats where
  "exampleStats =
     \<lparr>memory = JNum 1048576, cpu = JNum 12.345, disk = JNum 2000000000, uptime = JNum 5000\<rparr>"

section \<open>Evaluating the example runtime\<close>

lemmas lexer_defs =
  isSpace_def isWordChar_def isDigit_def punctuation_def unescape_def wordToken_def
  parseNumber_def parseFraction_def parseExponent_def digitsValue_def scale_def

lemma capitalize_starting: "capitalize exampleRuntime ''starting'' = ''Starting''"
  by (simp add: exampleRuntime_def capitalize_model_def upperChar_def)

lemma capitalize_stopping: "capitalize exampleRuntime ''stopping'' = ''Stopping''"
  by (simp add: exampleRuntime_def capitalize_model_def upperChar_def)

lemma parse_truncated: "JSON_parse exampleRuntime ''{\"memory_bytes\":1048576, \"cpu_abs'' = None"
  by (simp add: exampleRuntime_def JSON_parse_model_def lexer_defs)

lemma parse_number: "JSON_parse exampleRuntime ''5'' = Some (JNum 5)"
  by (simp add: exampleRuntime_def JSON_parse_model_def lexer_defs)

lemma parse_no_uptime:
  "JSON_parse exampleRuntime ''{\"memory_bytes\":1048576,\"cpu_absolute\":12.345,\"disk_bytes\":2000000000}''
   = Some (JObj [(''memory_bytes'', JNum 1048576), (''cpu_absolute'', JNum 12.345),
                 (''disk_bytes'', JNum 2000000000)])"
  by (simp add: exampleRuntime_def JSON_parse_model_def lexer_defs)

lemma fixedText_eval:
  assumes "nat \<lfloor>\<bar>x\<bar> * 10 ^ f + 1 / 2\<rfloor> = n" and "natToString n = ds"
    and "replicate (Suc f - length ds) (CHR ''0'') @ ds = m"
  shows "fixedText x f =
     (if x < 0 then ''-'' else []) @ take (length m - f) m
       @ (if f = 0 then [] else ''.'' @ drop (length m - f) m)"
  unfolding fixedText_def Let_def assms(1) assms(2) assms(3) by (rule refl)

lemma natToString_1235: "natToString 1235 = ''1235''"
  by (simp add: digit_def natToString.simps)

lemma natToString_100: "natToString 100 = ''100''"
  by (simp add: digit_def natToString.simps)

lemma natToString_51200: "natToString 51200 = ''51200''"
  by (simp add: digit_def natToString.simps)

lemma natToString_186: "natToString 186 = ''186''"
  by (simp add: digit_def natToString.simps)

lemma fixedText_cpu: "fixedText 12.345 2 = ''12.35''"
proof -
  have "nat \<lfloor>\<bar>12.345 :: real\<bar> * 10 ^ 2 + 1 / 2\<rfloor> = 1235"
    by simp
  from fixedText_eval [OF this natToString_1235, of "''1235''"] show ?thesis
    by simp
qed

lemma fixedText_cpu_normal: "fixedText (2469 / 200) 2 = ''12.35''"
  using fixedText_cpu by simp

lemma fixedText_1: "fixedText 1 2 = ''1.00''"
proof -
  have "nat \<lfloor>\<bar>1 :: real\<bar> * 10 ^ 2 + 1 / 2\<rfloor> = 100"
    by simp
  from fixedText_eval [OF this natToString_100, of "''100''"] show ?thesis
    by simp
qed

lemma fixedText_512: "fixedText 512 2 = ''512.00''"
proof -
  have "nat \<lfloor>\<bar>512 :: real\<bar> * 10 ^ 2 + 1 / 2\<rfloor> = 51200"
    by simp
  from fixedText_eval [OF this natToString_51200, of "''51200''"] show ?thesis
    by simp
qed

lemma floor_disk: "\<lfloor>\<bar>2000000000 / 1024 ^ 3 :: real\<bar> * 10 ^ 2 + 1 / 2\<rfloor> = 186"
  by (rule floor_unique) simp_all

lemma fixedText_disk: "fixedText (2000000000 / 1024 ^ 3) 2 = ''1.86''"
proof -
  have "nat \<lfloor>\<bar>2000000000 / 1024 ^ 3 :: real\<bar> * 10 ^ 2 + 1 / 2\<rfloor> = 186"
    by (simp only: floor_disk)
  from fixedText_eval [OF this natToString_186, of "''186''"] show ?thesis
    by simp
qed

lemma numToString_50: "numToString 50 = ''50''"
  by (simp add: numToString_def digit_def natToString.simps)

lemma bytes_1MiB: "bytesToString exampleRuntime (JNum 1048576) = ''1.00 MiB''"
  using fixedText_1 by (simp add: exampleRuntime_def bytesToString_model_def)

lemma bytes_512MiB:
  "bytesToString exampleRuntime (JNum (mbToBytes exampleRuntime 512)) = ''512.00 MiB''"
  using fixedText_512 by (simp add: exampleRuntime_def bytesToString_model_def mbToBytes_model_def)

lemma bytes_1GiB:
  "bytesToString exampleRuntime (JNum (mbToBytes exampleRuntime 1024)) = ''1.00 GiB''"
  using fixedText_1 by (simp add: exampleRuntime_def bytesToString_model_def mbToBytes_model_def)

lemma bytes_disk: "bytesToString exampleRuntime (JNum 2000000000) = ''1.86 GiB''"
  using fixedText_disk by (simp add: exampleRuntime_def bytesToString_model_def)

section \<open>Properties of the address\<close>

lemma find_none_iff: "find P xs = None \<longleftrightarrow> (\<forall>x \<in> set xs. \<not> P x)"
  by (induction xs) auto

lemma find_first: "(\<forall>x \<in> set pre. \<not> P x) \<Longrightarrow> P m \<Longrightarrow> find P (pre @ m # post) = Some m"
  by (induction pre) auto

lemma find_unique:
  "m \<in> set xs \<Longrightarrow> P m \<Longrightarrow> (\<forall>x \<in> set xs. P x \<longrightarrow> x = m) \<Longrightarrow> find P xs = Some m"
proof (induction xs)
  case Nil
  then show ?case by simp
next
  case (Cons x xs)
  show ?case
  proof (cases "P x")
    case True
    with Cons.prems(3) have "x = m" by simp
    with True show ?thesis by simp
  next
    case False
    with Cons.prems(1,2) have "m \<in> set xs" by auto
    moreover from Cons.prems(3) have "\<forall>y \<in> set xs. P y \<longrightarrow> y = m" by simp
    ultimately have "find P xs = Some m" using Cons.IH Cons.prems(2) by blast
    with False show ?thesis by simp
  qed
qed

lemma numToString_25566: "numToString 25566 = ''25566''"
  by (simp add: numToString_def digit_def natToString.simps)

text \<open>
  C7. The address is rendered from the allocation marked default: its alias when it
  has a (non-empty) one, else the formatted IP, then a colon and the port. The list
  of the specification gives \<open>play:25566\<close>, and a list with no default allocation gives
  exactly \<open>n/a\<close>.
\<close>

theorem allocation_of_default:
  "(m \<in> set allocations \<and> isDefault m \<and> (\<forall>a \<in> set allocations. isDefault a \<longrightarrow> a = m)
      \<longrightarrow> allocation H allocations =
            (case alias_name m of
               None \<Rightarrow> ip_formatter H (ip m)
             | Some a \<Rightarrow> if a = [] then ip_formatter H (ip m) else a)
            @ '':'' @ numToString (port m))
   \<and> ((\<forall>a \<in> set allocations. \<not> isDefault a) \<longrightarrow> allocation H allocations = ''n/a'')
   \<and> allocation H
        [\<lparr>ip = ''10.0.0.1'', port = 25565, alias_name = None, isDefault = False\<rparr>,
         \<lparr>ip = ''10.0.0.2'', port = 25566, alias_name = Some ''play'', isDefault = True\<rparr>]
       = ''play:25566''"
proof (intro conjI impI)
  assume "m \<in> set allocations \<and> isDefault m \<and> (\<forall>a \<in> set allocations. isDefault a \<longrightarrow> a = m)"
  then have "find isDefault allocations = Some m"
    using find_unique [of m allocations isDefault] by blast
  then show "allocation H allocations =
      (case alias_name m of
         None \<Rightarrow> ip_formatter H (ip m)
       | Some a \<Rightarrow> if a = [] then ip_formatter H (ip m) else a)
      @ '':'' @ numToString (port m)"
    by (simp add: allocation_def hostText_def split: option.split)
next
  assume "\<forall>a \<in> set allocations. \<not> isDefault a"
  then have "find isDefault allocations = None"
    by (simp add: find_none_iff)
  then show "allocation H allocations = ''n/a''"
    by (simp add: allocation_def)
next
  show "allocation H
        [\<lparr>ip = ''10.0.0.1'', port = 25565, alias_name = None, isDefault = False\<rparr>,
         \<lparr>ip = ''10.0.0.2'', port = 25566, alias_name = Some ''play'', isDefault = True\<rparr>]
       = ''play:25566''"
    by (simp add: allocation_def hostText_def numToString_25566)
qed

text \<open>
  C10. With several allocations marked default the first one in array order is
  rendered, whatever follows it, and the result is never \<open>n/a\<close>.
\<close>

theorem allocation_first_default:
  assumes "\<forall>a \<in> set pre. \<not> isDefault a" and "isDefault m"
  shows "allocation H (pre @ m # post) = hostText H m @ '':'' @ numToString (port m)
         \<and> allocation H (pre @ m # post) \<noteq> ''n/a''"
proof -
  have f: "find isDefault (pre @ m # post) = Some m"
    using assms by (rule find_first)
  have r: "allocation H (pre @ m # post) = hostText H m @ '':'' @ numToString (port m)"
    using f by (simp add: allocation_def)
  have "CHR '':'' \<in> set (hostText H m @ '':'' @ numToString (port m))"
    by simp
  moreover have "CHR '':'' \<notin> set ''n/a''"
    by simp
  ultimately have "hostText H m @ '':'' @ numToString (port m) \<noteq> ''n/a''"
    by metis
  with r show ?thesis by simp
qed


theorem allocation_of_default_witness:
  "allocation exampleRuntime exampleAllocations = ''play:25566''
   \<and> allocation exampleRuntime [hd exampleAllocations] = ''n/a''"
  using allocation_of_default [of "exampleAllocations ! 1" exampleAllocations exampleRuntime]
    allocation_of_default [of undefined "[hd exampleAllocations]" exampleRuntime]
  by (simp add: exampleAllocations_def numToString_25566)

theorem allocation_first_default_witness:
  "allocation exampleRuntime
     (exampleAllocations @ [\<lparr>ip = ''10.0.0.3'', port = 25567, alias_name = None, isDefault = True\<rparr>])
   = ''play:25566''"
  using allocation_first_default [of "[hd exampleAllocations]" "exampleAllocations ! 1" exampleRuntime
      "[\<lparr>ip = ''10.0.0.3'', port = 25567, alias_name = None, isDefault = True\<rparr>]"]
  by (simp add: exampleAllocations_def hostText_def numToString_25566)


section \<open>Properties of the stats handler\<close>

lemma parse_empty_object: "JSON_parse exampleRuntime ''{}'' = Some (JObj [])"
  by (simp add: exampleRuntime_def JSON_parse_model_def lexer_defs)

lemma getProp_defined:
  "parsed \<noteq> JNull \<Longrightarrow> parsed \<noteq> JUndefined \<Longrightarrow> \<exists>v. getProp parsed k = Inr v"
  by (cases parsed) simp_all

text \<open>
  C3. A payload that \<open>JSON.parse\<close> rejects changes nothing: the listener returns
  normally with the snapshot it found, so the state cell and every rendering of it
  are what they were before the event.
\<close>

theorem malformed_payload_is_ignored:
  assumes "JSON_parse H data = None"
  shows "statsHandler H data stats = Inr stats
         \<and> deliver H stats data = stats
         \<and> render H store (deliver H stats data) = render H store stats"
  using assms by (simp add: statsHandler_def deliver_def)

theorem malformed_payload_is_ignored_witness:
  "JSON_parse exampleRuntime ''{\"memory_bytes\":1048576, \"cpu_abs'' = None
   \<and> statsHandler exampleRuntime ''{\"memory_bytes\":1048576, \"cpu_abs'' exampleStats
       = Inr exampleStats
   \<and> deliver exampleRuntime exampleStats ''{\"memory_bytes\":1048576, \"cpu_abs'' = exampleStats"
  using malformed_payload_is_ignored [OF parse_truncated, of exampleStats "exampleStore ''running''"]
    parse_truncated
  by simp

text \<open>
  C8. A payload that decodes to anything but \<open>null\<close> (a stats record is a JSON object)
  replaces the snapshot as a whole: each of the four fields is what the payload holds
  under \<open>memory_bytes\<close>, \<open>cpu_absolute\<close>, \<open>disk_bytes\<close> and \<open>uptime\<close>, the last one replaced
  by 0 when it is falsy, and so when it is absent; the result is the same whatever the
  snapshot before was.
\<close>

theorem decoded_payload_replaces_snapshot:
  assumes "JSON_parse H data = Some parsed" and "parsed \<noteq> JNull" and "parsed \<noteq> JUndefined"
  shows "\<exists>s. statsHandler H data stats = Inr s
           \<and> getProp parsed ''memory_bytes'' = Inr (memory s)
           \<and> getProp parsed ''cpu_absolute'' = Inr (cpu s)
           \<and> getProp parsed ''disk_bytes'' = Inr (disk s)
           \<and> (\<exists>u. getProp parsed ''uptime'' = Inr u \<and> uptime s = (if truthy u then u else JNum 0))
           \<and> (getProp parsed ''uptime'' = Inr JUndefined \<longrightarrow> uptime s = JNum 0)
           \<and> statsHandler H data previous = Inr s"
proof -
  obtain m where m: "getProp parsed ''memory_bytes'' = Inr m"
    using getProp_defined [OF assms(2,3)] by blast
  obtain c where c: "getProp parsed ''cpu_absolute'' = Inr c"
    using getProp_defined [OF assms(2,3)] by blast
  obtain d where d: "getProp parsed ''disk_bytes'' = Inr d"
    using getProp_defined [OF assms(2,3)] by blast
  obtain u where u: "getProp parsed ''uptime'' = Inr u"
    using getProp_defined [OF assms(2,3)] by blast
  let ?s = "\<lparr>memory = m, cpu = c, disk = d, uptime = orZero u\<rparr>"
  have h: "\<And>old. statsHandler H data old = Inr ?s"
    using assms(1) m c d u by (simp add: statsHandler_def)
  have "statsHandler H data stats = Inr ?s
        \<and> getProp parsed ''memory_bytes'' = Inr (memory ?s)
        \<and> getProp parsed ''cpu_absolute'' = Inr (cpu ?s)
        \<and> getProp parsed ''disk_bytes'' = Inr (disk ?s)
        \<and> (\<exists>u. getProp parsed ''uptime'' = Inr u \<and> uptime ?s = (if truthy u then u else JNum 0))
        \<and> (getProp parsed ''uptime'' = Inr JUndefined \<longrightarrow> uptime ?s = JNum 0)
        \<and> statsHandler H data previous = Inr ?s"
    using h m c d u by (simp add: orZero_def)
  then show ?thesis by blast
qed

theorem decoded_payload_replaces_snapshot_witness:
  "statsHandler exampleRuntime
     ''{\"memory_bytes\":1048576,\"cpu_absolute\":12.345,\"disk_bytes\":2000000000}'' initialStats
   = Inr \<lparr>memory = JNum 1048576, cpu = JNum 12.345, disk = JNum 2000000000, uptime = JNum 0\<rparr>
   \<and> statsHandler exampleRuntime
     ''{\"memory_bytes\":1048576,\"cpu_absolute\":12.345,\"disk_bytes\":2000000000}'' exampleStats
   = Inr \<lparr>memory = JNum 1048576, cpu = JNum 12.345, disk = JNum 2000000000, uptime = JNum 0\<rparr>"
  using decoded_payload_replaces_snapshot [OF parse_no_uptime, of initialStats exampleStats]
  by (simp add: statsHandler_def parse_no_uptime own_def orZero_def)

text \<open>
  C4, as the code has it. The handler does not look at the shape of what was decoded:
  a payload that parses to anything but \<open>null\<close> is stored. A JSON number, boolean,
  string or array has none of the four properties, so the snapshot becomes three
  times \<open>undefined\<close> with an uptime of 0; of a JSON object every property is stored
  as it is found, \<open>undefined\<close> where it is missing. The event leaves the snapshot as
  it was only when the snapshot already held exactly these values.
\<close>

theorem wrong_shape_payload_is_stored:
  assumes "JSON_parse H data = Some parsed"
  shows "((\<exists>r. parsed = JNum r) \<or> (\<exists>b. parsed = JBool b) \<or> (\<exists>t. parsed = JStr t)
            \<or> (\<exists>xs. parsed = JArr xs)
          \<longrightarrow> statsHandler H data stats
                = Inr \<lparr>memory = JUndefined, cpu = JUndefined, disk = JUndefined, uptime = JNum 0\<rparr>
              \<and> (statsHandler H data stats = Inr stats
                   \<longleftrightarrow> stats = \<lparr>memory = JUndefined, cpu = JUndefined, disk = JUndefined,
                                  uptime = JNum 0\<rparr>))
         \<and> (\<forall>kvs. parsed = JObj kvs
              \<longrightarrow> statsHandler H data stats
                    = Inr \<lparr>memory = own kvs ''memory_bytes'', cpu = own kvs ''cpu_absolute'',
                           disk = own kvs ''disk_bytes'', uptime = orZero (own kvs ''uptime'')\<rparr>
                  \<and> (statsHandler H data stats = Inr stats
                       \<longleftrightarrow> stats = \<lparr>memory = own kvs ''memory_bytes'',
                                      cpu = own kvs ''cpu_absolute'',
                                      disk = own kvs ''disk_bytes'',
                                      uptime = orZero (own kvs ''uptime'')\<rparr>))
         \<and> (\<forall>kvs k. map_of kvs k = None \<longrightarrow> own kvs k = JUndefined)
         \<and> (\<forall>v. orZero v = (if truthy v then v else JNum 0))
         \<and> orZero JUndefined = JNum 0"
proof (intro conjI impI allI)
  assume "(\<exists>r. parsed = JNum r) \<or> (\<exists>b. parsed = JBool b) \<or> (\<exists>t. parsed = JStr t)
            \<or> (\<exists>xs. parsed = JArr xs)"
  with assms have r: "statsHandler H data stats
      = Inr \<lparr>memory = JUndefined, cpu = JUndefined, disk = JUndefined, uptime = JNum 0\<rparr>"
    by (auto simp: statsHandler_def orZero_def)
  then show "statsHandler H data stats
      = Inr \<lparr>memory = JUndefined, cpu = JUndefined, disk = JUndefined, uptime = JNum 0\<rparr>"
    and "statsHandler H data stats = Inr stats
      \<longleftrightarrow> stats = \<lparr>memory = JUndefined, cpu = JUndefined, disk = JUndefined, uptime = JNum 0\<rparr>"
    by auto
next
  fix kvs
  assume "parsed = JObj kvs"
  with assms have r: "statsHandler H data stats
      = Inr \<lparr>memory = own kvs ''memory_bytes'', cpu = own kvs ''cpu_absolute'',
             disk = own kvs ''disk_bytes'', uptime = orZero (own kvs ''uptime'')\<rparr>"
    by (simp add: statsHandler_def)
  then show "statsHandler H data stats
      = Inr \<lparr>memory = own kvs ''memory_bytes'', cpu = own kvs ''cpu_absolute'',
             disk = own kvs ''disk_bytes'', uptime = orZero (own kvs ''uptime'')\<rparr>"
    and "statsHandler H data stats = Inr stats
      \<longleftrightarrow> stats = \<lparr>memory = own kvs ''memory_bytes'', cpu = own kvs ''cpu_absolute'',
                     disk = own kvs ''disk_bytes'', uptime = orZero (own kvs ''uptime'')\<rparr>"
    by auto
next
  fix kvs :: "(string \<times> jsval) list" and k
  assume "map_of kvs k = None"
  then show "own kvs k = JUndefined"
    by (simp add: own_def)
next
  fix v
  show "orZero v = (if truthy v then v else JNum 0)"
    by (simp add: orZero_def)
next
  show "orZero JUndefined = JNum 0"
    by (simp add: orZero_def)
qed

theorem wrong_shape_payload_is_stored_witness:
  "statsHandler exampleRuntime ''{}'' exampleStats
   = Inr \<lparr>memory = JUndefined, cpu = JUndefined, disk = JUndefined, uptime = JNum 0\<rparr>"
  using wrong_shape_payload_is_stored [OF parse_empty_object, of exampleStats]
  by (simp add: own_def orZero_def)

text \<open>
  The claim as written fails on the JSON number \<open>5\<close>: the snapshot is overwritten, and
  the next rendering of a running server throws at \<open>stats.cpu.toFixed(2)\<close>, where the
  rendering of the snapshot before did not.
\<close>

theorem wrong_shape_payload_counterexample:
  "JSON_parse exampleRuntime ''5'' = Some (JNum 5)
   \<and> statsHandler exampleRuntime ''5'' exampleStats
       = Inr \<lparr>memory = JUndefined, cpu = JUndefined, disk = JUndefined, uptime = JNum 0\<rparr>
   \<and> statsHandler exampleRuntime ''5'' exampleStats \<noteq> Inr exampleStats
   \<and> render exampleRuntime (exampleStore ''running'') (deliver exampleRuntime exampleStats ''5'')
       = Inl TypeError
   \<and> render exampleRuntime (exampleStore ''running'') exampleStats \<noteq> Inl TypeError"
  by (simp add: parse_number statsHandler_def deliver_def orZero_def exampleStats_def
      render_def exampleStore_def uptimeChildren_def uptimeOrOffline_def cpuChildren_def)


section \<open>Properties of the rendering\<close>

lemma uptimeOrOffline_number:
  "uptime stats = JNum u \<Longrightarrow>
   uptimeOrOffline H stats = Inr (if 0 < u then UptimeDuration (u / 1000) else Text ''Offline'')"
  by (simp add: uptimeOrOffline_def)

lemma uptimeChildren_number:
  "uptime stats = JNum u \<Longrightarrow>
   uptimeChildren H status stats =
     Inr (case status of
            None \<Rightarrow> if 0 < u then UptimeDuration (u / 1000) else Text ''Offline''
          | Some s \<Rightarrow>
              if s = ''starting'' \<or> s = ''stopping'' then Text (capitalize H s)
              else if 0 < u then UptimeDuration (u / 1000) else Text ''Offline'')"
  by (simp add: uptimeChildren_def uptimeOrOffline_number split: option.split)

lemma whenSet_falsy: "l = None \<or> l = Some 0 \<Longrightarrow> whenSet l f d = d"
  by (auto simp: whenSet_def)

lemma whenSet_positive: "0 < n \<Longrightarrow> whenSet (Some n) f d = f n"
  by (simp add: whenSet_def)

lemma limitText_cases:
  "limitText None = Infin" "t \<noteq> [] \<Longrightarrow> limitText (Some t) = Text t"
  by (simp_all add: limitText_def)

lemma cpu_limit_node:
  "limitText (cpu_text (textLimits H limits)) =
     (case cpu_limit limits of
        None \<Rightarrow> Infin
      | Some n \<Rightarrow> if n = 0 then Infin else Text (numToString n @ ''%''))"
  by (simp add: textLimits_def whenSet_def limitText_def split: option.split)

lemma memory_limit_node:
  "limitText (memory_text (textLimits H limits)) =
     (case memory_limit limits of
        None \<Rightarrow> Infin
      | Some n \<Rightarrow>
          if n = 0 \<or> bytesToString H (JNum (mbToBytes H n)) = [] then Infin
          else Text (bytesToString H (JNum (mbToBytes H n))))"
  by (simp add: textLimits_def whenSet_def limitText_def split: option.split)

lemma render_offline:
  assumes "uptime stats = JNum u" and "status_value store = Some ''offline''"
  shows "\<exists>up. render H store stats =
     Inr \<lparr>uptime_text = up,
          address_text = allocation H (server_allocations store),
          cpu_description = cpuDescription (server_limits store),
          cpu_text_shown = Span ''text-gray-400'' [Text ''Offline''],
          memory_description = memoryDescription H (server_limits store),
          memory_text_shown = Span ''text-gray-400'' [Text ''Offline''],
          disk_description = diskDescription H (server_limits store),
          disk_text_shown = Text (bytesToString H (disk stats))\<rparr>"
  using assms(2)
  by (simp add: render_def uptimeChildren_number [OF assms(1)] cpuChildren_def memoryChildren_def
      diskChildren_def offlineSpan_def)

lemma render_online:
  assumes "uptime stats = JNum u" and "status_value store \<noteq> Some ''offline''"
    and "cpu stats = JNum c"
  shows "\<exists>up. render H store stats =
     Inr \<lparr>uptime_text = up,
          address_text = allocation H (server_allocations store),
          cpu_description = cpuDescription (server_limits store),
          cpu_text_shown =
            Fragment [if 10 ^ 21 \<le> \<bar>c\<bar> then NumberText c else Text (fixedText c 2), Text ''%'',
              Span ''ml-1 text-gray-300 text-[70%] select-none''
                [Text ''/ '', limitText (cpu_text (textLimits H (server_limits store)))]],
          memory_description = memoryDescription H (server_limits store),
          memory_text_shown =
            Fragment [Text (bytesToString H (memory stats)),
              Span ''ml-1 text-gray-300 text-[70%] select-none''
                [Text ''/ '', limitText (memory_text (textLimits H (server_limits store)))]],
          disk_description = diskDescription H (server_limits store),
          disk_text_shown = Text (bytesToString H (disk stats))\<rparr>"
  using assms(2,3)
  by (simp add: render_def uptimeChildren_number [OF assms(1)] cpuChildren_def memoryChildren_def
      diskChildren_def Limit_def toFixed_def)

lemma diskDescription_cases:
  "disk_limit limits = None \<or> disk_limit limits = Some 0 \<Longrightarrow>
     diskDescription H limits = ''No disk space limit has been configured for this server.''"
  "disk_limit limits = Some n \<Longrightarrow> 0 < n \<Longrightarrow>
     diskDescription H limits =
       ''This server is allowed to use up to '' @ bytesToString H (JNum (mbToBytes H n))
         @ '' of disk space.''"
  by (auto simp: diskDescription_def whenSet_def)

lemma render_example_running:
  "render exampleRuntime (exampleStore ''running'') exampleStats =
     Inr \<lparr>uptime_text = UptimeDuration 5,
          address_text = ''play:25566'',
          cpu_description =
            ''This server is allowed to use up to 50% of the host's available CPU resources.'',
          cpu_text_shown =
            Fragment [Text ''12.35'', Text ''%'',
              Span ''ml-1 text-gray-300 text-[70%] select-none'' [Text ''/ '', Text ''50%'']],
          memory_description = ''This server is allowed to use up to 512.00 MiB of memory.'',
          memory_text_shown =
            Fragment [Text ''1.00 MiB'',
              Span ''ml-1 text-gray-300 text-[70%] select-none''
                [Text ''/ '', Text ''512.00 MiB'']],
          disk_description = ''This server is allowed to use up to 1.00 GiB of disk space.'',
          disk_text_shown = Text ''1.86 GiB''\<rparr>"
  by (simp add: render_def uptimeChildren_def uptimeOrOffline_def cpuChildren_def
      memoryChildren_def diskChildren_def Limit_def limitText_def textLimits_def whenSet_def
      toFixed_def cpuDescription_def memoryDescription_def diskDescription_def allocation_def
      hostText_def exampleStore_def exampleLimits_def exampleStats_def exampleAllocations_def
      numToString_25566 numToString_50 fixedText_cpu_normal bytes_1MiB bytes_512MiB bytes_1GiB
      bytes_disk)

lemma render_example_offline:
  "render exampleRuntime (exampleStore ''offline'') exampleStats =
     Inr \<lparr>uptime_text = UptimeDuration 5,
          address_text = ''play:25566'',
          cpu_description =
            ''This server is allowed to use up to 50% of the host's available CPU resources.'',
          cpu_text_shown = Span ''text-gray-400'' [Text ''Offline''],
          memory_description = ''This server is allowed to use up to 512.00 MiB of memory.'',
          memory_text_shown = Span ''text-gray-400'' [Text ''Offline''],
          disk_description = ''This server is allowed to use up to 1.00 GiB of disk space.'',
          disk_text_shown = Text ''1.86 GiB''\<rparr>"
  by (simp add: render_def uptimeChildren_def uptimeOrOffline_def cpuChildren_def
      memoryChildren_def diskChildren_def offlineSpan_def cpuDescription_def
      memoryDescription_def diskDescription_def whenSet_def allocation_def
      hostText_def exampleStore_def exampleLimits_def exampleStats_def exampleAllocations_def
      numToString_25566 numToString_50 bytes_512MiB bytes_1GiB bytes_disk)

lemma statsHandler_independent:
  assumes "JSON_parse H d = Some v" and "v \<noteq> JNull" and "v \<noteq> JUndefined"
  shows "\<exists>s. \<forall>old. statsHandler H d old = Inr s"
  using assms by (cases v) (simp_all add: statsHandler_def)

text \<open>
  C1. The Uptime block shows the capitalized status word while the server is
  starting or stopping, whatever the snapshot holds; otherwise the duration of
  uptime / 1000 seconds when the uptime is above zero, and \<open>Offline\<close> when it is not. It
  is this text that a rendering carries.
\<close>

theorem uptime_text_by_status:
  "(s = ''starting'' \<or> s = ''stopping''
      \<longrightarrow> uptimeChildren H (Some s) stats = Inr (Text (capitalize H s)))
   \<and> (status \<noteq> Some ''starting'' \<and> status \<noteq> Some ''stopping'' \<and> uptime stats = JNum u \<and> 0 < u
      \<longrightarrow> uptimeChildren H status stats = Inr (UptimeDuration (u / 1000)))
   \<and> (status \<noteq> Some ''starting'' \<and> status \<noteq> Some ''stopping'' \<and> uptime stats = JNum u \<and> u \<le> 0
      \<longrightarrow> uptimeChildren H status stats = Inr (Text ''Offline''))
   \<and> (render H store stats = Inr dm
      \<longrightarrow> uptimeChildren H (status_value store) stats = Inr (uptime_text dm))"
proof (intro conjI impI)
  assume "s = ''starting'' \<or> s = ''stopping''"
  then show "uptimeChildren H (Some s) stats = Inr (Text (capitalize H s))"
    by (auto simp: uptimeChildren_def)
next
  assume a: "status \<noteq> Some ''starting'' \<and> status \<noteq> Some ''stopping'' \<and> uptime stats = JNum u
    \<and> 0 < u"
  then have "uptimeChildren H status stats = uptimeOrOffline H stats"
    by (simp add: uptimeChildren_def split: option.split)
  with a show "uptimeChildren H status stats = Inr (UptimeDuration (u / 1000))"
    by (simp add: uptimeOrOffline_number)
next
  assume a: "status \<noteq> Some ''starting'' \<and> status \<noteq> Some ''stopping'' \<and> uptime stats = JNum u
    \<and> u \<le> 0"
  then have "uptimeChildren H status stats = uptimeOrOffline H stats"
    by (simp add: uptimeChildren_def split: option.split)
  with a show "uptimeChildren H status stats = Inr (Text ''Offline'')"
    by (simp add: uptimeOrOffline_number)
next
  assume "render H store stats = Inr dm"
  then show "uptimeChildren H (status_value store) stats = Inr (uptime_text dm)"
    by (auto simp: render_def split: sum.splits)
qed

theorem uptime_text_by_status_witness:
  "uptimeChildren exampleRuntime (Some ''starting'') exampleStats = Inr (Text ''Starting'')
   \<and> uptimeChildren exampleRuntime (Some ''stopping'') initialStats = Inr (Text ''Stopping'')
   \<and> uptimeChildren exampleRuntime (Some ''running'') exampleStats = Inr (UptimeDuration 5)
   \<and> uptimeChildren exampleRuntime (Some ''offline'') initialStats = Inr (Text ''Offline'')"
  using
    uptime_text_by_status [where s = "''starting''" and H = exampleRuntime and stats = exampleStats
      and status = "Some ''running''" and u = 5000 and store = "exampleStore ''running''"
      and dm = undefined]
    uptime_text_by_status [where s = "''stopping''" and H = exampleRuntime and stats = initialStats
      and status = "Some ''offline''" and u = 0 and store = "exampleStore ''offline''"
      and dm = undefined]
  by (simp add: capitalize_starting capitalize_stopping exampleStats_def initialStats_def)

text \<open>
  C2. For a snapshot of numbers: when the status is \<open>offline\<close> the CPU and the memory
  block both show \<open>Offline\<close> and the disk block still shows the formatted disk usage
  of the snapshot; under every other status the CPU block shows the load with two
  decimals (the runtime's ToString of it from \<open>10^21\<close> on) and a percent sign, then
  the slash and the CPU limit, and the memory block shows the formatted usage, then
  the slash and the memory limit.
\<close>

theorem offline_blanks_cpu_and_memory:
  assumes "uptime stats = JNum u"
  shows "(status_value store = Some ''offline''
          \<longrightarrow> (\<exists>dm. render H store stats = Inr dm
                \<and> cpu_text_shown dm = Span ''text-gray-400'' [Text ''Offline'']
                \<and> memory_text_shown dm = Span ''text-gray-400'' [Text ''Offline'']
                \<and> disk_text_shown dm = Text (bytesToString H (disk stats))))
         \<and> (status_value store \<noteq> Some ''offline'' \<and> cpu stats = JNum c
          \<longrightarrow> (\<exists>dm. render H store stats = Inr dm
                \<and> cpu_text_shown dm =
                    Fragment
                      [if 10 ^ 21 \<le> \<bar>c\<bar> then NumberText c else Text (fixedText c 2),
                       Text ''%'',
                       Span ''ml-1 text-gray-300 text-[70%] select-none''
                         [Text ''/ '',
                          case cpu_limit (server_limits store) of
                            None \<Rightarrow> Infin
                          | Some n \<Rightarrow> if n = 0 then Infin else Text (numToString n @ ''%'')]]
                \<and> memory_text_shown dm =
                    Fragment
                      [Text (bytesToString H (memory stats)),
                       Span ''ml-1 text-gray-300 text-[70%] select-none''
                         [Text ''/ '',
                          case memory_limit (server_limits store) of
                            None \<Rightarrow> Infin
                          | Some n \<Rightarrow>
                              if n = 0 \<or> bytesToString H (JNum (mbToBytes H n)) = [] then Infin
                              else Text (bytesToString H (JNum (mbToBytes H n)))]]
                \<and> disk_text_shown dm = Text (bytesToString H (disk stats))))"
proof (intro conjI impI)
  assume "status_value store = Some ''offline''"
  from render_offline [OF assms this, of H]
  show "\<exists>dm. render H store stats = Inr dm
          \<and> cpu_text_shown dm = Span ''text-gray-400'' [Text ''Offline'']
          \<and> memory_text_shown dm = Span ''text-gray-400'' [Text ''Offline'']
          \<and> disk_text_shown dm = Text (bytesToString H (disk stats))"
    by auto
next
  assume a: "status_value store \<noteq> Some ''offline'' \<and> cpu stats = JNum c"
  then have "status_value store \<noteq> Some ''offline''" and "cpu stats = JNum c"
    by simp_all
  from render_online [OF assms this, of H]
  obtain dm where dm: "render H store stats = Inr dm"
    and "cpu_text_shown dm =
           Fragment [if 10 ^ 21 \<le> \<bar>c\<bar> then NumberText c else Text (fixedText c 2), Text ''%'',
             Span ''ml-1 text-gray-300 text-[70%] select-none''
               [Text ''/ '', limitText (cpu_text (textLimits H (server_limits store)))]]"
    and "memory_text_shown dm =
           Fragment [Text (bytesToString H (memory stats)),
             Span ''ml-1 text-gray-300 text-[70%] select-none''
               [Text ''/ '', limitText (memory_text (textLimits H (server_limits store)))]]"
    and "disk_text_shown dm = Text (bytesToString H (disk stats))"
    by auto
  then show "\<exists>dm. render H store stats = Inr dm
      \<and> cpu_text_shown dm =
          Fragment
            [if 10 ^ 21 \<le> \<bar>c\<bar> then NumberText c else Text (fixedText c 2),
             Text ''%'',
             Span ''ml-1 text-gray-300 text-[70%] select-none''
               [Text ''/ '',
                case cpu_limit (server_limits store) of
                  None \<Rightarrow> Infin
                | Some n \<Rightarrow> if n = 0 then Infin else Text (numToString n @ ''%'')]]
      \<and> memory_text_shown dm =
          Fragment
            [Text (bytesToString H (memory stats)),
             Span ''ml-1 text-gray-300 text-[70%] select-none''
               [Text ''/ '',
                case memory_limit (server_limits store) of
                  None \<Rightarrow> Infin
                | Some n \<Rightarrow>
                    if n = 0 \<or> bytesToString H (JNum (mbToBytes H n)) = [] then Infin
                    else Text (bytesToString H (JNum (mbToBytes H n)))]]
      \<and> disk_text_shown dm = Text (bytesToString H (disk stats))"
    by (simp only: cpu_limit_node memory_limit_node) blast
qed

theorem offline_blanks_cpu_and_memory_witness:
  "(\<exists>dm. render exampleRuntime (exampleStore ''offline'') exampleStats = Inr dm
        \<and> cpu_text_shown dm = Span ''text-gray-400'' [Text ''Offline'']
        \<and> memory_text_shown dm = Span ''text-gray-400'' [Text ''Offline'']
        \<and> disk_text_shown dm = Text ''1.86 GiB'')
   \<and> (\<exists>dm. render exampleRuntime (exampleStore ''running'') exampleStats = Inr dm
        \<and> cpu_text_shown dm =
            Fragment [Text ''12.35'', Text ''%'',
              Span ''ml-1 text-gray-300 text-[70%] select-none'' [Text ''/ '', Text ''50%'']]
        \<and> memory_text_shown dm =
            Fragment [Text ''1.00 MiB'',
              Span ''ml-1 text-gray-300 text-[70%] select-none''
                [Text ''/ '', Text ''512.00 MiB'']]
        \<and> disk_text_shown dm = Text ''1.86 GiB'')"
  using
    offline_blanks_cpu_and_memory [where stats = exampleStats and u = 5000 and H = exampleRuntime
      and store = "exampleStore ''offline''" and c = "12.345"]
    offline_blanks_cpu_and_memory [where stats = exampleStats and u = 5000 and H = exampleRuntime
      and store = "exampleStore ''running''" and c = "12.345"]
  by (simp add: render_example_running render_example_offline)

text \<open>
  C6, as the code has it. Under every status but \<open>offline\<close> the CPU and the memory
  block end in the slash and the limit text: the infinity entity, never the text
  \<open>0\<close>, for a limit that is zero or absent; for a positive limit the number and a
  percent sign (CPU) or the byte string of the megabytes (memory, given that the
  formatter returns a text that is not empty). The Disk block has no limit text: it
  is the formatted usage alone, and the disk limit is told by the description only,
  as the sentence that no limit is configured when it is zero or absent and inside
  the sentence of the allowance when it is positive.
\<close>

theorem limit_text_of_cpu_and_memory:
  assumes "uptime stats = JNum u"
  shows "(status_value store \<noteq> Some ''offline'' \<and> cpu stats = JNum c
          \<longrightarrow> (\<exists>dm cur lc lm. render H store stats = Inr dm
                \<and> cpu_text_shown dm =
                    Fragment [cur, Text ''%'',
                      Span ''ml-1 text-gray-300 text-[70%] select-none'' [Text ''/ '', lc]]
                \<and> memory_text_shown dm =
                    Fragment [Text (bytesToString H (memory stats)),
                      Span ''ml-1 text-gray-300 text-[70%] select-none'' [Text ''/ '', lm]]
                \<and> (cpu_limit (server_limits store) = None
                      \<or> cpu_limit (server_limits store) = Some 0
                    \<longrightarrow> lc = Infin \<and> lc \<noteq> Text ''0'')
                \<and> (\<forall>n. cpu_limit (server_limits store) = Some n \<and> 0 < n
                    \<longrightarrow> lc = Text (numToString n @ ''%''))
                \<and> (memory_limit (server_limits store) = None
                      \<or> memory_limit (server_limits store) = Some 0
                    \<longrightarrow> lm = Infin \<and> lm \<noteq> Text ''0'')
                \<and> (\<forall>n. memory_limit (server_limits store) = Some n \<and> 0 < n
                        \<and> bytesToString H (JNum (mbToBytes H n)) \<noteq> []
                    \<longrightarrow> lm = Text (bytesToString H (JNum (mbToBytes H n))))))
         \<and> (status_value store = Some ''offline'' \<or> (\<exists>c. cpu stats = JNum c)
          \<longrightarrow> (\<exists>dm. render H store stats = Inr dm
                \<and> disk_text_shown dm = Text (bytesToString H (disk stats))
                \<and> (disk_limit (server_limits store) = None
                      \<or> disk_limit (server_limits store) = Some 0
                    \<longrightarrow> disk_description dm
                        = ''No disk space limit has been configured for this server.'')
                \<and> (\<forall>n. disk_limit (server_limits store) = Some n \<and> 0 < n
                    \<longrightarrow> disk_description dm
                        = ''This server is allowed to use up to ''
                          @ bytesToString H (JNum (mbToBytes H n)) @ '' of disk space.'')))"
proof (intro conjI impI)
  assume "status_value store \<noteq> Some ''offline'' \<and> cpu stats = JNum c"
  then have "status_value store \<noteq> Some ''offline''" and "cpu stats = JNum c"
    by simp_all
  from render_online [OF assms this, of H]
  obtain dm where dm: "render H store stats = Inr dm"
    and cp: "cpu_text_shown dm =
           Fragment [if 10 ^ 21 \<le> \<bar>c\<bar> then NumberText c else Text (fixedText c 2), Text ''%'',
             Span ''ml-1 text-gray-300 text-[70%] select-none''
               [Text ''/ '', limitText (cpu_text (textLimits H (server_limits store)))]]"
    and me: "memory_text_shown dm =
           Fragment [Text (bytesToString H (memory stats)),
             Span ''ml-1 text-gray-300 text-[70%] select-none''
               [Text ''/ '', limitText (memory_text (textLimits H (server_limits store)))]]"
    by auto
  let ?lc = "limitText (cpu_text (textLimits H (server_limits store)))"
  let ?lm = "limitText (memory_text (textLimits H (server_limits store)))"
  have c0: "cpu_limit (server_limits store) = None \<or> cpu_limit (server_limits store) = Some 0
      \<longrightarrow> ?lc = Infin \<and> ?lc \<noteq> Text ''0''"
    by (auto simp: cpu_limit_node)
  have c1: "\<forall>n. cpu_limit (server_limits store) = Some n \<and> 0 < n
      \<longrightarrow> ?lc = Text (numToString n @ ''%'')"
    by (simp add: cpu_limit_node)
  have m0: "memory_limit (server_limits store) = None
        \<or> memory_limit (server_limits store) = Some 0
      \<longrightarrow> ?lm = Infin \<and> ?lm \<noteq> Text ''0''"
    by (auto simp: memory_limit_node)
  have m1: "\<forall>n. memory_limit (server_limits store) = Some n \<and> 0 < n
        \<and> bytesToString H (JNum (mbToBytes H n)) \<noteq> []
      \<longrightarrow> ?lm = Text (bytesToString H (JNum (mbToBytes H n)))"
    by (simp add: memory_limit_node)
  from dm cp me c0 c1 m0 m1
  show "\<exists>dm cur lc lm. render H store stats = Inr dm
          \<and> cpu_text_shown dm =
              Fragment [cur, Text ''%'',
                Span ''ml-1 text-gray-300 text-[70%] select-none'' [Text ''/ '', lc]]
          \<and> memory_text_shown dm =
              Fragment [Text (bytesToString H (memory stats)),
                Span ''ml-1 text-gray-300 text-[70%] select-none'' [Text ''/ '', lm]]
          \<and> (cpu_limit (server_limits store) = None
                \<or> cpu_limit (server_limits store) = Some 0
              \<longrightarrow> lc = Infin \<and> lc \<noteq> Text ''0'')
          \<and> (\<forall>n. cpu_limit (server_limits store) = Some n \<and> 0 < n
              \<longrightarrow> lc = Text (numToString n @ ''%''))
          \<and> (memory_limit (server_limits store) = None
                \<or> memory_limit (server_limits store) = Some 0
              \<longrightarrow> lm = Infin \<and> lm \<noteq> Text ''0'')
          \<and> (\<forall>n. memory_limit (server_limits store) = Some n \<and> 0 < n
                  \<and> bytesToString H (JNum (mbToBytes H n)) \<noteq> []
              \<longrightarrow> lm = Text (bytesToString H (JNum (mbToBytes H n))))"
    by blast
next
  assume a: "status_value store = Some ''offline'' \<or> (\<exists>c. cpu stats = JNum c)"
  have "\<exists>dm. render H store stats = Inr dm
      \<and> disk_text_shown dm = Text (bytesToString H (disk stats))
      \<and> disk_description dm = diskDescription H (server_limits store)"
  proof (cases "status_value store = Some ''offline''")
    case True
    from render_offline [OF assms True, of H] show ?thesis by auto
  next
    case False
    with a obtain c where "cpu stats = JNum c" by blast
    from render_online [OF assms False this, of H] show ?thesis by auto
  qed
  then obtain dm where dm: "render H store stats = Inr dm"
    and dt: "disk_text_shown dm = Text (bytesToString H (disk stats))"
    and dd: "disk_description dm = diskDescription H (server_limits store)"
    by blast
  have d0: "disk_limit (server_limits store) = None \<or> disk_limit (server_limits store) = Some 0
      \<longrightarrow> disk_description dm = ''No disk space limit has been configured for this server.''"
    using diskDescription_cases(1) [of "server_limits store" H] dd by simp
  have d1: "\<forall>n. disk_limit (server_limits store) = Some n \<and> 0 < n
      \<longrightarrow> disk_description dm
          = ''This server is allowed to use up to ''
            @ bytesToString H (JNum (mbToBytes H n)) @ '' of disk space.''"
    using diskDescription_cases(2) [of "server_limits store" _ H] dd by simp
  from dm dt d0 d1
  show "\<exists>dm. render H store stats = Inr dm
          \<and> disk_text_shown dm = Text (bytesToString H (disk stats))
          \<and> (disk_limit (server_limits store) = None
                \<or> disk_limit (server_limits store) = Some 0
              \<longrightarrow> disk_description dm
                  = ''No disk space limit has been configured for this server.'')
          \<and> (\<forall>n. disk_limit (server_limits store) = Some n \<and> 0 < n
              \<longrightarrow> disk_description dm
                  = ''This server is allowed to use up to ''
                    @ bytesToString H (JNum (mbToBytes H n)) @ '' of disk space.'')"
    by blast
qed

theorem limit_text_of_cpu_and_memory_witness:
  "\<exists>dm. render exampleRuntime (exampleStore ''running'') exampleStats = Inr dm
      \<and> cpu_text_shown dm =
          Fragment [Text ''12.35'', Text ''%'',
            Span ''ml-1 text-gray-300 text-[70%] select-none'' [Text ''/ '', Text ''50%'']]
      \<and> memory_text_shown dm =
          Fragment [Text ''1.00 MiB'',
            Span ''ml-1 text-gray-300 text-[70%] select-none'' [Text ''/ '', Text ''512.00 MiB'']]
      \<and> disk_text_shown dm = Text ''1.86 GiB''
      \<and> disk_description dm = ''This server is allowed to use up to 1.00 GiB of disk space.''"
  using limit_text_of_cpu_and_memory [where stats = exampleStats and u = 5000
      and H = exampleRuntime and store = "exampleStore ''running''" and c = "12.345"]
  by (simp add: render_example_running)

text \<open>
  The claim as written fails for the disk. With no limit configured on any resource
  the CPU and the memory block of a running server end in the infinity entity, and
  the Disk block is the usage and nothing else: no limit text is rendered for it.
\<close>

theorem disk_limit_text_counterexample:
  "render exampleRuntime unlimitedStore exampleStats =
     Inr \<lparr>uptime_text = UptimeDuration 5,
          address_text = ''play:25566'',
          cpu_description = ''No CPU limit has been configured for this server.'',
          cpu_text_shown =
            Fragment [Text ''12.35'', Text ''%'',
              Span ''ml-1 text-gray-300 text-[70%] select-none'' [Text ''/ '', Infin]],
          memory_description = ''No memory limit has been configured for this server.'',
          memory_text_shown =
            Fragment [Text ''1.00 MiB'',
              Span ''ml-1 text-gray-300 text-[70%] select-none'' [Text ''/ '', Infin]],
          disk_description = ''No disk space limit has been configured for this server.'',
          disk_text_shown = Text ''1.86 GiB''\<rparr>
   \<and> disk_limit (server_limits unlimitedStore) = Some 0
   \<and> Text ''1.86 GiB'' \<noteq> Infin"
  by (simp add: render_def uptimeChildren_def uptimeOrOffline_def cpuChildren_def
      memoryChildren_def diskChildren_def Limit_def limitText_def textLimits_def whenSet_def
      toFixed_def cpuDescription_def memoryDescription_def diskDescription_def allocation_def
      hostText_def unlimitedStore_def unlimited_def exampleStats_def exampleAllocations_def
      numToString_25566 fixedText_cpu_normal bytes_1MiB bytes_disk)

text \<open>
  C9. What is displayed is a function of the latest snapshot, the limits, the status
  and the allocations: two stores that agree on the last three give the same
  rendering of a snapshot, whatever their sockets are. The snapshot is all zeros
  before the first event; after an event that decodes it does not depend on the
  events before it, and an event that does not parse leaves it as it was.
\<close>

theorem display_determined_by_inputs:
  "(status_value store = status_value store' \<and> server_limits store = server_limits store'
      \<and> server_allocations store = server_allocations store'
      \<longrightarrow> render H store stats = render H store' stats)
   \<and> deliverAll H [] = \<lparr>memory = JNum 0, cpu = JNum 0, disk = JNum 0, uptime = JNum 0\<rparr>
   \<and> (JSON_parse H d = Some v \<and> v \<noteq> JNull \<and> v \<noteq> JUndefined
      \<longrightarrow> deliverAll H (es @ [d]) = deliverAll H (es' @ [d]))
   \<and> (JSON_parse H d = None \<longrightarrow> deliverAll H (es @ [d]) = deliverAll H es)"
proof (intro conjI impI)
  assume "status_value store = status_value store' \<and> server_limits store = server_limits store'
      \<and> server_allocations store = server_allocations store'"
  then have a: "status_value store = status_value store'"
    and b: "server_limits store = server_limits store'"
    and c: "server_allocations store = server_allocations store'"
    by simp_all
  show "render H store stats = render H store' stats"
    unfolding render_def a b c by (rule refl)
next
  show "deliverAll H [] = \<lparr>memory = JNum 0, cpu = JNum 0, disk = JNum 0, uptime = JNum 0\<rparr>"
    by (simp add: deliverAll_def initialStats_def)
next
  assume "JSON_parse H d = Some v \<and> v \<noteq> JNull \<and> v \<noteq> JUndefined"
  then obtain s where "\<forall>old. statsHandler H d old = Inr s"
    using statsHandler_independent [of H d v] by blast
  then have "\<And>old. deliver H old d = s"
    by (simp add: deliver_def)
  then show "deliverAll H (es @ [d]) = deliverAll H (es' @ [d])"
    by (simp add: deliverAll_def)
next
  assume "JSON_parse H d = None"
  then have "\<And>old. deliver H old d = old"
    by (simp add: deliver_def statsHandler_def)
  then show "deliverAll H (es @ [d]) = deliverAll H es"
    by (simp add: deliverAll_def)
qed

theorem display_determined_by_inputs_witness:
  "render exampleRuntime (socketStore True (Some 1)) exampleStats
     = render exampleRuntime (socketStore False None) exampleStats
   \<and> deliverAll exampleRuntime
       [''5'', ''{\"memory_bytes\":1048576,\"cpu_absolute\":12.345,\"disk_bytes\":2000000000}'']
     = deliverAll exampleRuntime
       [''{\"memory_bytes\":1048576,\"cpu_absolute\":12.345,\"disk_bytes\":2000000000}'']
   \<and> deliverAll exampleRuntime [''{\"memory_bytes\":1048576, \"cpu_abs''] = deliverAll exampleRuntime []"
  using
    display_determined_by_inputs [where store = "socketStore True (Some 1)"
      and store' = "socketStore False None" and H = exampleRuntime and stats = exampleStats
      and d = "''{\"memory_bytes\":1048576,\"cpu_absolute\":12.345,\"disk_bytes\":2000000000}''"
      and v = "JObj [(''memory_bytes'', JNum 1048576), (''cpu_absolute'', JNum 12.345),
                 (''disk_bytes'', JNum 2000000000)]"
      and es = "[''5'']" and es' = "[]"]
    display_determined_by_inputs [where store = "socketStore True (Some 1)"
      and store' = "socketStore False None" and H = exampleRuntime and stats = exampleStats
      and d = "''{\"memory_bytes\":1048576, \"cpu_abs''" and v = JNull
      and es = "[]" and es' = "[]"]
  by (simp add: socketStore_def parse_no_uptime parse_truncated)


section \<open>Properties of the effect\<close>

lemma useEffect_length: "length (useEffect prev stores) = length stores"
  by (induction stores arbitrary: prev) simp_all

lemma useEffect_nth:
  "i < length stores \<Longrightarrow>
   useEffect prev stores ! i =
     (if (case i of 0 \<Rightarrow> prev | Suc j \<Rightarrow> Some (deps (stores ! j))) = Some (deps (stores ! i))
      then [] else requestStats (stores ! i))"
proof (induction stores arbitrary: prev i)
  case Nil
  then show ?case by simp
next
  case (Cons s ss)
  show ?case
  proof (cases i)
    case 0
    then show ?thesis by simp
  next
    case (Suc j)
    with Cons.prems have "j < length ss" by simp
    from Cons.IH [OF this, of "Some (deps s)"] Suc show ?thesis
      by (cases j) simp_all
  qed
qed

lemma requestStats_cases:
  "requestStats st =
     (if spec_transportConnected st
      then [\<lparr>sent_on = the (socket_instance st), request = SEND_STATS, payload = None\<rparr>]
      else [])"
  by (simp add: requestStats_def spec_transportConnected_def split: option.split)

lemma effect_runs_iff_enters:
  "(if map_option deps before = Some (deps st) then [] else requestStats st) =
     (if spec_entersConnected before st
      then [\<lparr>sent_on = the (socket_instance st), request = SEND_STATS, payload = None\<rparr>]
      else [])"
  by (cases before)
    (auto simp: requestStats_cases spec_entersConnected_def spec_transportConnected_def deps_def)

lemma deps_renderBefore:
  "map_option deps (renderBefore stores i)
     = (case i of 0 \<Rightarrow> None | Suc j \<Rightarrow> Some (deps (stores ! j)))"
  by (cases i) (simp_all add: renderBefore_def)

lemma sent_at_render:
  assumes "i < length stores"
  shows "useEffect None stores ! i =
     (if spec_entersConnected (renderBefore stores i) (stores ! i)
      then [\<lparr>sent_on = the (socket_instance (stores ! i)), request = SEND_STATS, payload = None\<rparr>]
      else [])"
  using useEffect_nth [OF assms, of None]
    effect_runs_iff_enters [of "renderBefore stores i" "stores ! i"]
  by (simp add: deps_renderBefore)

text \<open>
  C5. Over any sequence of renders, the effect sends exactly one \<open>SEND_STATS\<close> without
  payload at each render where the transport enters the connected state, on the
  socket of that render, and nothing at any other render; so nothing is ever sent
  while the flag is off or the instance is missing. Where the renders see one socket
  only, entering the connected state is being connected now and not at the render
  before.
\<close>

theorem request_stats_once_per_connect:
  assumes "i < length stores"
  shows "length (useEffect None stores) = length stores
         \<and> (spec_entersConnected (renderBefore stores i) (stores ! i)
            \<longrightarrow> (\<exists>inst. socket_instance (stores ! i) = Some inst
                  \<and> useEffect None stores ! i
                      = [\<lparr>sent_on = inst, request = SEND_STATS, payload = None\<rparr>]))
         \<and> (\<not> spec_entersConnected (renderBefore stores i) (stores ! i)
            \<longrightarrow> useEffect None stores ! i = [])
         \<and> (useEffect None stores ! i \<noteq> []
            \<longrightarrow> socket_connected (stores ! i) \<and> socket_instance (stores ! i) \<noteq> None)
         \<and> ((\<forall>j < length stores. \<forall>k < length stores.
                socket_instance (stores ! j) \<noteq> None \<and> socket_instance (stores ! k) \<noteq> None
                \<longrightarrow> socket_instance (stores ! j) = socket_instance (stores ! k))
             \<and> 0 < i
            \<longrightarrow> (spec_entersConnected (renderBefore stores i) (stores ! i)
                  \<longleftrightarrow> spec_transportConnected (stores ! i)
                        \<and> \<not> spec_transportConnected (stores ! (i - 1))))"
proof (intro conjI impI)
  show "length (useEffect None stores) = length stores"
    by (rule useEffect_length)
next
  assume e: "spec_entersConnected (renderBefore stores i) (stores ! i)"
  then obtain inst where inst: "socket_instance (stores ! i) = Some inst"
    by (auto simp: spec_entersConnected_def spec_transportConnected_def)
  with e sent_at_render [OF assms]
  show "\<exists>inst. socket_instance (stores ! i) = Some inst
          \<and> useEffect None stores ! i = [\<lparr>sent_on = inst, request = SEND_STATS, payload = None\<rparr>]"
    by simp
next
  assume "\<not> spec_entersConnected (renderBefore stores i) (stores ! i)"
  with sent_at_render [OF assms] show "useEffect None stores ! i = []"
    by simp
next
  assume "useEffect None stores ! i \<noteq> []"
  with sent_at_render [OF assms]
  have "spec_entersConnected (renderBefore stores i) (stores ! i)"
    by (simp split: if_splits)
  then show "socket_connected (stores ! i)"
    by (simp add: spec_entersConnected_def spec_transportConnected_def)
next
  assume "useEffect None stores ! i \<noteq> []"
  with sent_at_render [OF assms]
  have "spec_entersConnected (renderBefore stores i) (stores ! i)"
    by (simp split: if_splits)
  then show "socket_instance (stores ! i) \<noteq> None"
    by (simp add: spec_entersConnected_def spec_transportConnected_def)
next
  assume h: "(\<forall>j < length stores. \<forall>k < length stores.
                socket_instance (stores ! j) \<noteq> None \<and> socket_instance (stores ! k) \<noteq> None
                \<longrightarrow> socket_instance (stores ! j) = socket_instance (stores ! k))
             \<and> 0 < i"
  then have pos: "0 < i" by simp
  with assms have lt: "i - 1 < length stores" by simp
  have same: "spec_transportConnected (stores ! i) \<Longrightarrow> spec_transportConnected (stores ! (i - 1))
      \<Longrightarrow> socket_instance (stores ! (i - 1)) = socket_instance (stores ! i)"
    using h assms lt by (simp add: spec_transportConnected_def)
  from pos have rb: "renderBefore stores i = Some (stores ! (i - 1))"
    by (simp add: renderBefore_def)
  show "spec_entersConnected (renderBefore stores i) (stores ! i)
        \<longleftrightarrow> spec_transportConnected (stores ! i) \<and> \<not> spec_transportConnected (stores ! (i - 1))"
    using same by (auto simp: rb spec_entersConnected_def)
qed

theorem request_stats_once_per_connect_witness:
  "spec_entersConnected (renderBefore exampleTrace 2) (exampleTrace ! 2)
   \<and> useEffect None exampleTrace ! 2 = [\<lparr>sent_on = 1, request = SEND_STATS, payload = None\<rparr>]
   \<and> \<not> spec_entersConnected (renderBefore exampleTrace 3) (exampleTrace ! 3)
   \<and> useEffect None exampleTrace ! 3 = []
   \<and> \<not> spec_transportConnected (exampleTrace ! 4)
   \<and> useEffect None exampleTrace ! 4 = []
   \<and> useEffect None exampleTrace =
       [[], [], [\<lparr>sent_on = 1, request = SEND_STATS, payload = None\<rparr>], [], [],
        [\<lparr>sent_on = 1, request = SEND_STATS, payload = None\<rparr>]]"
proof -
  have l2: "(2::nat) < length exampleTrace" and l3: "(3::nat) < length exampleTrace"
    and l4: "(4::nat) < length exampleTrace"
    by (simp_all add: exampleTrace_def)
  have e2: "spec_entersConnected (renderBefore exampleTrace 2) (exampleTrace ! 2)"
    by (simp add: exampleTrace_def socketStore_def renderBefore_def spec_entersConnected_def
        spec_transportConnected_def)
  have e3: "\<not> spec_entersConnected (renderBefore exampleTrace 3) (exampleTrace ! 3)"
    by (simp add: exampleTrace_def socketStore_def renderBefore_def spec_entersConnected_def
        spec_transportConnected_def)
  have e4: "\<not> spec_transportConnected (exampleTrace ! 4)"
    by (simp add: exampleTrace_def socketStore_def spec_transportConnected_def)
  have i2: "socket_instance (exampleTrace ! 2) = Some 1"
    by (simp add: exampleTrace_def socketStore_def)
  from request_stats_once_per_connect [OF l2] e2 i2
  have s2: "useEffect None exampleTrace ! 2 = [\<lparr>sent_on = 1, request = SEND_STATS, payload = None\<rparr>]"
    by auto
  from request_stats_once_per_connect [OF l3] e3
  have s3: "useEffect None exampleTrace ! 3 = []"
    by blast
  from request_stats_once_per_connect [OF l4] e4
  have s4: "useEffect None exampleTrace ! 4 = []"
    by (auto simp: spec_transportConnected_def)
  have all: "useEffect None exampleTrace =
       [[], [], [\<lparr>sent_on = 1, request = SEND_STATS, payload = None\<rparr>], [], [],
        [\<lparr>sent_on = 1, request = SEND_STATS, payload = None\<rparr>]]"
    by (simp add: exampleTrace_def socketStore_def requestStats_def deps_def)
  from e2 s2 e3 s3 e4 s4 all show ?thesis by blast
qed

end
